theory Spec2Isabelle
  imports Main "HOL-Library.Word"
begin

section \<open>Values crossing the native boundary\<close>

text \<open>
  \<^verbatim>\<open>common/archivingReader.c\<close> is a thin layer over a streaming-archive library. The
  objects of that library are reached through pointers only, so an object is a handle (a
  number naming one allocation) and a C pointer value is one of three things: the content
  of a variable or struct field that was never assigned, the null pointer, or the address
  of an allocation.
\<close>

type_synonym handle = nat
type_synonym uintptr = "64 word"
type_synonym byte = "8 word"

datatype cptr = Indeterminate | Null | Addr handle

text \<open>The two status codes of \<^verbatim>\<open>archive.h\<close> that the layer or the model compares with.\<close>

definition ARCHIVE_OK :: int where
  "ARCHIVE_OK = 0"

definition ARCHIVE_FATAL :: int where
  "ARCHIVE_FATAL = - 30"

section \<open>The native library\<close>

text \<open>
  Every native call is recorded, in order, with its pointer arguments, and with its result
  where the layer looks at it.
\<close>

datatype call =
    Archive_write_new cptr
  | Archive_write_set_format_pax_restricted cptr int
  | Archive_write_open2 cptr uintptr int
  | Archive_write_get_bytes_in_last_block cptr int
  | Archive_write_set_bytes_in_last_block cptr int
  | Archive_read_disk_new cptr
  | Archive_read_disk_open cptr string int
  | Archive_entry_new cptr
  | Archive_read_next_header2 cptr cptr int
  | Archive_entry_free cptr
  | Archive_read_close cptr
  | Archive_read_free cptr
  | Archive_write_close cptr
  | Archive_write_free cptr

text \<open>
  What the library and the sink answer is not decided by this layer, so it is a parameter:
  the status of each fallible step, the last-block size a new encoder reports, the block
  an encoder flushes when it is closed with nothing written to it (a function of its
  last-block size), and the sink callback \<^verbatim>\<open>buffer_write\<close>, which is declared
  \<^verbatim>\<open>extern\<close> in the header and answers the number of bytes accepted or a negative
  value.
\<close>

record library =
  set_format_pax_restricted_rc :: int
  open2_rc :: int
  default_bytes_in_last_block :: int
  read_disk_open_rc :: "string \<Rightarrow> int"
  read_next_header2_rc :: "string \<Rightarrow> int"
  end_of_archive :: "int \<Rightarrow> byte list"
  buffer_write :: "uintptr \<Rightarrow> byte list \<Rightarrow> int"

record encoder =
  bytes_in_last_block :: int
  client :: "uintptr option"

text \<open>
  The state of the native side: the calls made so far, the allocations that are live, the
  encoders with their last-block size and the sink context they were opened on, the paths
  the cursors were opened on, the calls that were handed a pointer to a released
  allocation, and the buffers delivered to the sink.
\<close>

record world =
  trace :: "call list"
  next_handle :: handle
  live :: "handle set"
  encoders :: "handle \<rightharpoonup> encoder"
  cursors :: "handle \<rightharpoonup> string"
  stale :: "call list"
  sink :: "(uintptr \<times> byte list) list"

definition world0 :: world where
  "world0 = \<lparr>trace = [], next_handle = 0, live = {}, encoders = Map.empty,
     cursors = Map.empty, stale = [], sink = []\<rparr>"

definition dangling :: "world \<Rightarrow> cptr \<Rightarrow> bool" where
  "dangling w p = (case p of Addr h \<Rightarrow> h \<notin> live w | _ \<Rightarrow> False)"

definition native :: "call \<Rightarrow> cptr list \<Rightarrow> world \<Rightarrow> world" where
  "native c ps w =
     w\<lparr>trace := trace w @ [c],
       stale := (if list_ex (dangling w) ps then stale w @ [c] else stale w)\<rparr>"

definition alloc :: "world \<Rightarrow> handle \<times> world" where
  "alloc w =
     (next_handle w,
      w\<lparr>next_handle := Suc (next_handle w), live := insert (next_handle w) (live w)\<rparr>)"

definition release :: "cptr \<Rightarrow> world \<Rightarrow> world" where
  "release p w =
     (case p of
        Addr h \<Rightarrow> w\<lparr>live := live w - {h}, encoders := (encoders w)(h := None),
                     cursors := (cursors w)(h := None)\<rparr>
      | _ \<Rightarrow> w)"

definition encoder_of :: "world \<Rightarrow> cptr \<Rightarrow> encoder option" where
  "encoder_of w p = (case p of Addr h \<Rightarrow> encoders w h | _ \<Rightarrow> None)"

definition update_encoder :: "cptr \<Rightarrow> (encoder \<Rightarrow> encoder) \<Rightarrow> world \<Rightarrow> world" where
  "update_encoder p f w =
     (case p of
        Addr h \<Rightarrow> (case encoders w h of
                     Some e \<Rightarrow> w\<lparr>encoders := (encoders w)(h \<mapsto> f e)\<rparr>
                   | None \<Rightarrow> w)
      | _ \<Rightarrow> w)"

definition archive_write_new :: "library \<Rightarrow> world \<Rightarrow> cptr \<times> world" where
  "archive_write_new L w =
     (let (h, w1) = alloc w;
          w2 = w1\<lparr>encoders := (encoders w1)(h \<mapsto>
                  \<lparr>bytes_in_last_block = default_bytes_in_last_block L, client = None\<rparr>)\<rparr>
      in (Addr h, native (Archive_write_new (Addr h)) [] w2))"

definition archive_write_set_format_pax_restricted ::
    "library \<Rightarrow> cptr \<Rightarrow> world \<Rightarrow> int \<times> world" where
  "archive_write_set_format_pax_restricted L p w =
     (let rc = set_format_pax_restricted_rc L
      in (rc, native (Archive_write_set_format_pax_restricted p rc) [p] w))"

text \<open>
  The layer passes a null open callback, so opening an encoder calls nothing of the
  caller's: the status is the library's own, and the write callback is only stored.
\<close>

definition archive_write_open2 ::
    "library \<Rightarrow> cptr \<Rightarrow> uintptr \<Rightarrow> world \<Rightarrow> int \<times> world" where
  "archive_write_open2 L p client_data w =
     (let rc = open2_rc L;
          w1 = (if rc = ARCHIVE_OK
                then update_encoder p (\<lambda>e. e\<lparr>client := Some client_data\<rparr>) w else w)
      in (rc, native (Archive_write_open2 p client_data rc) [p] w1))"

definition archive_write_get_bytes_in_last_block :: "cptr \<Rightarrow> world \<Rightarrow> int \<times> world" where
  "archive_write_get_bytes_in_last_block p w =
     (let n = (case encoder_of w p of
                 Some e \<Rightarrow> bytes_in_last_block e
               | None \<Rightarrow> ARCHIVE_FATAL)
      in (n, native (Archive_write_get_bytes_in_last_block p n) [p] w))"

definition archive_write_set_bytes_in_last_block ::
    "cptr \<Rightarrow> int \<Rightarrow> world \<Rightarrow> int \<times> world" where
  "archive_write_set_bytes_in_last_block p n w =
     (ARCHIVE_OK,
      native (Archive_write_set_bytes_in_last_block p n) [p]
        (update_encoder p (\<lambda>e. e\<lparr>bytes_in_last_block := n\<rparr>) w))"

definition archive_read_disk_new :: "world \<Rightarrow> cptr \<times> world" where
  "archive_read_disk_new w =
     (let (h, w1) = alloc w in (Addr h, native (Archive_read_disk_new (Addr h)) [] w1))"

definition archive_read_disk_open ::
    "library \<Rightarrow> cptr \<Rightarrow> string \<Rightarrow> world \<Rightarrow> int \<times> world" where
  "archive_read_disk_open L p filename w =
     (let rc = read_disk_open_rc L filename;
          w1 = (case p of
                  Addr h \<Rightarrow> if rc = ARCHIVE_OK
                            then w\<lparr>cursors := (cursors w)(h \<mapsto> filename)\<rparr> else w
                | _ \<Rightarrow> w)
      in (rc, native (Archive_read_disk_open p filename rc) [p] w1))"

definition archive_entry_new :: "world \<Rightarrow> cptr \<times> world" where
  "archive_entry_new w =
     (let (h, w1) = alloc w in (Addr h, native (Archive_entry_new (Addr h)) [] w1))"

definition archive_read_next_header2 ::
    "library \<Rightarrow> cptr \<Rightarrow> cptr \<Rightarrow> world \<Rightarrow> int \<times> world" where
  "archive_read_next_header2 L p e w =
     (let rc = (case p of
                  Addr h \<Rightarrow> (case cursors w h of
                               Some f \<Rightarrow> read_next_header2_rc L f
                             | None \<Rightarrow> ARCHIVE_FATAL)
                | _ \<Rightarrow> ARCHIVE_FATAL)
      in (rc, native (Archive_read_next_header2 p e rc) [p, e] w))"

definition archive_entry_free :: "cptr \<Rightarrow> world \<Rightarrow> world" where
  "archive_entry_free p w = release p (native (Archive_entry_free p) [p] w)"

definition archive_read_close :: "cptr \<Rightarrow> world \<Rightarrow> int \<times> world" where
  "archive_read_close p w =
     (let w1 = native (Archive_read_close p) [p] w
      in (ARCHIVE_OK,
          case p of Addr h \<Rightarrow> w1\<lparr>cursors := (cursors w1)(h := None)\<rparr> | _ \<Rightarrow> w1))"

definition archive_read_free :: "cptr \<Rightarrow> world \<Rightarrow> int \<times> world" where
  "archive_read_free p w = (ARCHIVE_OK, release p (native (Archive_read_free p) [p] w))"

text \<open>
  Closing an encoder that is open on a sink flushes its end-of-archive block through the
  write callback, and reports a failure of the callback as a fatal status.
\<close>

definition archive_write_close :: "library \<Rightarrow> cptr \<Rightarrow> world \<Rightarrow> int \<times> world" where
  "archive_write_close L p w =
     (case encoder_of w p of
        None \<Rightarrow> (ARCHIVE_FATAL, native (Archive_write_close p) [p] w)
      | Some e \<Rightarrow>
          (case client e of
             None \<Rightarrow> (ARCHIVE_OK, native (Archive_write_close p) [p] w)
           | Some c \<Rightarrow>
               (let buf = end_of_archive L (bytes_in_last_block e);
                    rc = (if buffer_write L c buf < 0 then ARCHIVE_FATAL else ARCHIVE_OK);
                    w1 = update_encoder p (\<lambda>e. e\<lparr>client := None\<rparr>)
                           (w\<lparr>sink := sink w @ [(c, buf)]\<rparr>)
                in (rc, native (Archive_write_close p) [p] w1))))"

definition archive_write_free :: "cptr \<Rightarrow> world \<Rightarrow> int \<times> world" where
  "archive_write_free p w = (ARCHIVE_OK, release p (native (Archive_write_free p) [p] w))"

section \<open>The layer: \<^verbatim>\<open>archive_init\<close> and \<^verbatim>\<open>archive_close\<close>\<close>

text \<open>
  \<^verbatim>\<open>archive_close\<close> takes the three pointers by value, makes the five release calls
  and answers \<^verbatim>\<open>ARCHIVE_OK\<close>; the status of each native call is dropped.
\<close>

definition archive_close :: "library \<Rightarrow> cptr \<Rightarrow> cptr \<Rightarrow> cptr \<Rightarrow> world \<Rightarrow> int \<times> world" where
  "archive_close L a disk entry w =
     (let w1 = archive_entry_free entry w;
          w2 = snd (archive_read_close disk w1);
          w3 = snd (archive_read_free disk w2);
          w4 = snd (archive_write_close L a w3);
          w5 = snd (archive_write_free a w4)
      in (ARCHIVE_OK, w5))"

text \<open>\<^verbatim>\<open>struct archive_cookie\<close> of the header.\<close>

record archive_cookie =
  err :: int
  a :: cptr
  disk :: cptr
  entry :: cptr

text \<open>
  \<^verbatim>\<open>archive_init\<close> declares \<^verbatim>\<open>ret\<close> without an initialiser and assigns
  \<^verbatim>\<open>ret.err\<close> at once; the three pointer fields are assigned on the last path only.
\<close>

definition archive_init ::
    "library \<Rightarrow> string \<Rightarrow> uintptr \<Rightarrow> world \<Rightarrow> archive_cookie \<times> world" where
  "archive_init L filename client_data w =
     (let ret = \<lparr>err = ARCHIVE_OK, a = Indeterminate, disk = Indeterminate,
                entry = Indeterminate\<rparr>;
          (a, w1) = archive_write_new L w;
          (err, w2) = archive_write_set_format_pax_restricted L a w1
      in if err \<noteq> ARCHIVE_OK then (ret\<lparr>err := err\<rparr>, w2)
         else
           let (err, w3) = archive_write_open2 L a client_data w2
           in if err \<noteq> ARCHIVE_OK then (ret\<lparr>err := err\<rparr>, w3)
              else
                let (n, w4) = archive_write_get_bytes_in_last_block a w3;
                    w5 = (if - 1 = n
                          then snd (archive_write_set_bytes_in_last_block a 1 w4) else w4);
                    (disk, w6) = archive_read_disk_new w5;
                    (err, w7) = archive_read_disk_open L disk filename w6
                in if err \<noteq> ARCHIVE_OK then (ret\<lparr>err := err\<rparr>, w7)
                   else
                     let (entry, w8) = archive_entry_new w7;
                         (err, w9) = archive_read_next_header2 L disk entry w8
                     in if err \<noteq> ARCHIVE_OK then (ret\<lparr>err := err\<rparr>, w9)
                        else (ret\<lparr>a := a, disk := disk, entry := entry\<rparr>, w9))"

section \<open>Scenarios and observations\<close>

text \<open>The calls made between an earlier and a later state of the native side.\<close>

definition made :: "world \<Rightarrow> world \<Rightarrow> call list" where
  "made w w' = drop (length (trace w)) (trace w')"

text \<open>All the bytes the sink has received, in order.\<close>

definition sink_bytes :: "world \<Rightarrow> byte list" where
  "sink_bytes w = concat (map snd (sink w))"

text \<open>
  \<^verbatim>\<open>archive_init\<close> immediately followed by \<^verbatim>\<open>archive_close\<close> on the three
  pointers of the cookie: the status of each, and the state of the native side afterwards.
\<close>

definition init_then_close ::
    "library \<Rightarrow> string \<Rightarrow> uintptr \<Rightarrow> world \<Rightarrow> int \<times> int \<times> world" where
  "init_then_close L filename client_data w =
     (let (ret, w1) = archive_init L filename client_data w;
          (rc, w2) = archive_close L (a ret) (disk ret) (entry ret) w1
      in (err ret, rc, w2))"

text \<open>
  A tar header block begins with the name field, which holds the path name of the entry.
  So the first bytes of a header written for a short path are the bytes of that path; this
  is the part of header validity that is looked at here.
\<close>

definition header_names :: "string \<Rightarrow> byte list \<Rightarrow> bool" where
  "header_names path bs = (take (length path) bs = map of_char path)"

text \<open>
  A library on which every step succeeds: a new encoder reports the sentinel \<open>-1\<close>, an
  encoder closed with nothing written flushes 1024 zero bytes (the end-of-archive marker of
  the tar format), and the sink accepts whatever it is given. Then three variations: the
  format configuration fails, opening on the sink fails, and the sink refuses every buffer.
\<close>

definition lib_ok :: library where
  "lib_ok =
     \<lparr>set_format_pax_restricted_rc = ARCHIVE_OK, open2_rc = ARCHIVE_OK,
      default_bytes_in_last_block = - 1,
      read_disk_open_rc = (\<lambda>f. ARCHIVE_OK),
      read_next_header2_rc = (\<lambda>f. ARCHIVE_OK),
      end_of_archive = (\<lambda>n. replicate 1024 0),
      buffer_write = (\<lambda>c buf. int (length buf))\<rparr>"

definition lib_format_fatal :: library where
  "lib_format_fatal = lib_ok\<lparr>set_format_pax_restricted_rc := ARCHIVE_FATAL\<rparr>"

definition lib_open_fatal :: library where
  "lib_open_fatal = lib_ok\<lparr>open2_rc := ARCHIVE_FATAL\<rparr>"

definition lib_sink_fails :: library where
  "lib_sink_fails = lib_ok\<lparr>buffer_write := (\<lambda>c buf. - 1)\<rparr>"

section \<open>Effects of the native calls\<close>

lemma native_simps [simp]:
  "trace (native c ps w) = trace w @ [c]"
  "sink (native c ps w) = sink w"
  "live (native c ps w) = live w"
  "next_handle (native c ps w) = next_handle w"
  "encoders (native c ps w) = encoders w"
  "cursors (native c ps w) = cursors w"
  "stale (native c ps w) = (if list_ex (dangling w) ps then stale w @ [c] else stale w)"
  by (simp_all add: native_def)

lemma release_simps [simp]:
  "trace (release p w) = trace w"
  "sink (release p w) = sink w"
  "stale (release p w) = stale w"
  "next_handle (release p w) = next_handle w"
  "live (release (Addr h) w) = live w - {h}"
  "live (release Null w) = live w"
  "live (release Indeterminate w) = live w"
  by (simp_all add: release_def split: cptr.splits)

lemma update_encoder_simps [simp]:
  "trace (update_encoder p f w) = trace w"
  "sink (update_encoder p f w) = sink w"
  "stale (update_encoder p f w) = stale w"
  "live (update_encoder p f w) = live w"
  "next_handle (update_encoder p f w) = next_handle w"
  "cursors (update_encoder p f w) = cursors w"
  by (simp_all add: update_encoder_def split: cptr.splits option.splits)

lemma dangling_simps [simp]:
  "dangling w Null = False"
  "dangling w Indeterminate = False"
  "dangling w (Addr h) = (h \<notin> live w)"
  by (simp_all add: dangling_def)

lemmas native_defs =
  archive_write_new_def archive_write_set_format_pax_restricted_def archive_write_open2_def
  archive_write_get_bytes_in_last_block_def archive_write_set_bytes_in_last_block_def
  archive_read_disk_new_def archive_read_disk_open_def archive_entry_new_def
  archive_read_next_header2_def archive_entry_free_def archive_read_close_def
  archive_read_free_def archive_write_close_def archive_write_free_def alloc_def

lemmas lib_defs =
  lib_ok_def lib_format_fatal_def lib_open_fatal_def lib_sink_fails_def
  ARCHIVE_OK_def ARCHIVE_FATAL_def

section \<open>What \<^verbatim>\<open>archive_init\<close> returns and does\<close>

text \<open>
  The cookie: the status is that of the first step that failed; the pointer fields are
  assigned on the path where no step failed, and on no other.
\<close>

lemma archive_init_cookie:
  "fst (archive_init L f c w) =
     (if set_format_pax_restricted_rc L \<noteq> ARCHIVE_OK
      then \<lparr>err = set_format_pax_restricted_rc L, a = Indeterminate, disk = Indeterminate,
            entry = Indeterminate\<rparr>
      else if open2_rc L \<noteq> ARCHIVE_OK
      then \<lparr>err = open2_rc L, a = Indeterminate, disk = Indeterminate,
            entry = Indeterminate\<rparr>
      else if read_disk_open_rc L f \<noteq> ARCHIVE_OK
      then \<lparr>err = read_disk_open_rc L f, a = Indeterminate, disk = Indeterminate,
            entry = Indeterminate\<rparr>
      else if read_next_header2_rc L f \<noteq> ARCHIVE_OK
      then \<lparr>err = read_next_header2_rc L f, a = Indeterminate, disk = Indeterminate,
            entry = Indeterminate\<rparr>
      else \<lparr>err = ARCHIVE_OK, a = Addr (next_handle w), disk = Addr (Suc (next_handle w)),
             entry = Addr (Suc (Suc (next_handle w)))\<rparr>)"
  by (simp add: archive_init_def native_defs Let_def
      split: cptr.splits option.splits prod.splits)

text \<open>The calls, in order, with the point at which each failure stops them.\<close>

lemma archive_init_trace:
  "trace (snd (archive_init L f c w)) = trace w @
     [Archive_write_new (Addr (next_handle w)),
      Archive_write_set_format_pax_restricted (Addr (next_handle w))
        (set_format_pax_restricted_rc L)] @
     (if set_format_pax_restricted_rc L \<noteq> ARCHIVE_OK then []
      else
        [Archive_write_open2 (Addr (next_handle w)) c (open2_rc L)] @
        (if open2_rc L \<noteq> ARCHIVE_OK then []
         else
           [Archive_write_get_bytes_in_last_block (Addr (next_handle w))
              (default_bytes_in_last_block L)] @
           (if default_bytes_in_last_block L = - 1
            then [Archive_write_set_bytes_in_last_block (Addr (next_handle w)) 1] else []) @
           [Archive_read_disk_new (Addr (Suc (next_handle w))),
            Archive_read_disk_open (Addr (Suc (next_handle w))) f (read_disk_open_rc L f)] @
           (if read_disk_open_rc L f \<noteq> ARCHIVE_OK then []
            else
              [Archive_entry_new (Addr (Suc (Suc (next_handle w)))),
               Archive_read_next_header2 (Addr (Suc (next_handle w)))
                 (Addr (Suc (Suc (next_handle w)))) (read_next_header2_rc L f)])))"
  by (simp add: archive_init_def native_defs encoder_of_def update_encoder_def Let_def
      split: cptr.splits option.splits prod.splits)

lemma archive_init_sink: "sink (snd (archive_init L f c w)) = sink w"
  by (simp add: archive_init_def native_defs Let_def
      split: cptr.splits option.splits prod.splits)

lemma archive_init_encoder:
  "encoders (snd (archive_init L f c w)) (next_handle w) =
     Some \<lparr>bytes_in_last_block =
             (if set_format_pax_restricted_rc L = ARCHIVE_OK \<and> open2_rc L = ARCHIVE_OK \<and>
                 default_bytes_in_last_block L = - 1
              then 1 else default_bytes_in_last_block L),
           client =
             (if set_format_pax_restricted_rc L = ARCHIVE_OK \<and> open2_rc L = ARCHIVE_OK
              then Some c else None)\<rparr>"
  by (simp add: archive_init_def native_defs encoder_of_def update_encoder_def Let_def
      split: cptr.splits option.splits prod.splits)

section \<open>What \<^verbatim>\<open>archive_close\<close> returns and does\<close>

lemma archive_close_trace:
  "trace (snd (archive_close L wr rd en w)) = trace w @
     [Archive_entry_free en, Archive_read_close rd, Archive_read_free rd,
      Archive_write_close wr, Archive_write_free wr]"
  by (simp add: archive_close_def native_defs Let_def split: cptr.splits option.splits)

lemma archive_close_status: "fst (archive_close L wr rd en w) = ARCHIVE_OK"
  by (simp add: archive_close_def Let_def)

lemma archive_close_live:
  "live (snd (archive_close L (Addr x) (Addr y) (Addr z) w)) = live w - {x, y, z}"
  by (auto simp add: archive_close_def native_defs Let_def split: cptr.splits option.splits)

lemma archive_close_stale:
  "x \<notin> live w \<Longrightarrow> y \<notin> live w \<Longrightarrow> z \<notin> live w \<Longrightarrow>
   stale (snd (archive_close L (Addr x) (Addr y) (Addr z) w)) = stale w @
     [Archive_entry_free (Addr z), Archive_read_close (Addr y), Archive_read_free (Addr y),
      Archive_write_close (Addr x), Archive_write_free (Addr x)]"
  by (simp add: archive_close_def native_defs Let_def split: cptr.splits option.splits)

lemma archive_close_sink:
  "x \<noteq> y \<Longrightarrow> x \<noteq> z \<Longrightarrow>
   encoders w x = Some \<lparr>bytes_in_last_block = n, client = Some c\<rparr> \<Longrightarrow>
   sink (snd (archive_close L (Addr x) (Addr y) (Addr z) w)) =
     sink w @ [(c, end_of_archive L n)]"
  by (simp add: archive_close_def native_defs encoder_of_def release_def Let_def
      split: cptr.splits option.splits)

section \<open>\<^verbatim>\<open>archive_init\<close> followed by \<^verbatim>\<open>archive_close\<close>\<close>

lemma archive_init_live:
  "live (snd (archive_init L f c w)) = live w \<union>
     (if set_format_pax_restricted_rc L \<noteq> ARCHIVE_OK \<or> open2_rc L \<noteq> ARCHIVE_OK
      then {next_handle w}
      else if read_disk_open_rc L f \<noteq> ARCHIVE_OK
      then {next_handle w, Suc (next_handle w)}
      else {next_handle w, Suc (next_handle w), Suc (Suc (next_handle w))})"
  by (auto simp add: archive_init_def native_defs Let_def
      split: cptr.splits option.splits prod.splits)

lemma init_then_close_unfold:
  "init_then_close L f c w =
     (err (fst (archive_init L f c w)),
      archive_close L (a (fst (archive_init L f c w))) (disk (fst (archive_init L f c w)))
        (entry (fst (archive_init L f c w))) (snd (archive_init L f c w)))"
  by (simp add: init_then_close_def split: prod.splits)

lemma init_then_close_sink:
  assumes "set_format_pax_restricted_rc L = ARCHIVE_OK" and "open2_rc L = ARCHIVE_OK"
    and "read_disk_open_rc L f = ARCHIVE_OK" and "read_next_header2_rc L f = ARCHIVE_OK"
  shows "sink (snd (snd (init_then_close L f c w))) = sink w @
           [(c, end_of_archive L (if default_bytes_in_last_block L = - 1 then 1
                                  else default_bytes_in_last_block L))]"
proof -
  let ?h = "next_handle w"
  have enc: "encoders (snd (archive_init L f c w)) ?h =
      Some \<lparr>bytes_in_last_block = (if default_bytes_in_last_block L = - 1 then 1
                                    else default_bytes_in_last_block L),
            client = Some c\<rparr>"
    using assms by (simp add: archive_init_encoder)
  have "sink (snd (archive_close L (Addr ?h) (Addr (Suc ?h)) (Addr (Suc (Suc ?h)))
                 (snd (archive_init L f c w)))) =
      sink w @ [(c, end_of_archive L (if default_bytes_in_last_block L = - 1 then 1
                                      else default_bytes_in_last_block L))]"
    using archive_close_sink [OF _ _ enc, of "Suc ?h" "Suc (Suc ?h)" L]
    by (simp add: archive_init_sink)
  then show ?thesis
    using assms by (simp add: init_then_close_unfold archive_init_cookie)
qed

section \<open>The partial-failure record (C1)\<close>

text \<open>
  C1, as the code has it: whenever \<^verbatim>\<open>archive_init\<close> returns a status other than
  \<^verbatim>\<open>ARCHIVE_OK\<close>, whichever step failed, none of the three pointer fields of the
  returned cookie has been assigned: each holds what the uninitialised \<^verbatim>\<open>ret\<close>
  held, neither a handle nor null.
\<close>

theorem archive_init_failure_fields:
  "err (fst (archive_init L f c w)) \<noteq> ARCHIVE_OK \<Longrightarrow>
   a (fst (archive_init L f c w)) = Indeterminate \<and>
   disk (fst (archive_init L f c w)) = Indeterminate \<and>
   entry (fst (archive_init L f c w)) = Indeterminate"
  by (simp add: archive_init_cookie split: if_splits)

text \<open>The same at a library whose open step fails.\<close>

theorem archive_init_failure_fields_witness:
  "err (fst (archive_init lib_open_fatal ''f'' 7 world0)) \<noteq> ARCHIVE_OK \<and>
   a (fst (archive_init lib_open_fatal ''f'' 7 world0)) = Indeterminate \<and>
   disk (fst (archive_init lib_open_fatal ''f'' 7 world0)) = Indeterminate \<and>
   entry (fst (archive_init lib_open_fatal ''f'' 7 world0)) = Indeterminate"
proof -
  have h: "err (fst (archive_init lib_open_fatal ''f'' 7 world0)) \<noteq> ARCHIVE_OK"
    by (simp add: archive_init_cookie lib_defs)
  from archive_init_failure_fields [OF h] h show ?thesis by simp
qed

text \<open>
  C1 as stated does not hold. When opening on the sink fails, the encoder has been
  allocated and configured (handle 0, still live afterwards), yet the cookie's
  \<^verbatim>\<open>a\<close> is not that handle, and the cursor, which was never constructed, is not
  null in the cookie.
\<close>

theorem archive_init_failure_drops_encoder:
  "err (fst (archive_init lib_open_fatal ''f'' 7 world0)) \<noteq> ARCHIVE_OK \<and>
   made world0 (snd (archive_init lib_open_fatal ''f'' 7 world0)) =
     [Archive_write_new (Addr 0),
      Archive_write_set_format_pax_restricted (Addr 0) ARCHIVE_OK,
      Archive_write_open2 (Addr 0) 7 ARCHIVE_FATAL] \<and>
   0 \<in> live (snd (archive_init lib_open_fatal ''f'' 7 world0)) \<and>
   a (fst (archive_init lib_open_fatal ''f'' 7 world0)) \<noteq> Addr 0 \<and>
   disk (fst (archive_init lib_open_fatal ''f'' 7 world0)) \<noteq> Null"
  by (simp add: archive_init_cookie archive_init_live made_def archive_init_trace
      world0_def lib_defs)

section \<open>Full success, and what reaches the sink (C2)\<close>

text \<open>
  C2, as the code has it: for every path on which the four fallible native steps succeed,
  \<^verbatim>\<open>archive_init\<close> returns \<^verbatim>\<open>ARCHIVE_OK\<close> with the encoder, the cursor and
  the entry in the cookie, all three live; \<^verbatim>\<open>archive_close\<close> right after it
  returns \<^verbatim>\<open>ARCHIVE_OK\<close> too, and the sink has then received exactly one buffer,
  the block the encoder flushes on closing, which does not depend on the path.
\<close>

theorem init_then_close_on_success:
  assumes "set_format_pax_restricted_rc L = ARCHIVE_OK" and "open2_rc L = ARCHIVE_OK"
    and "read_disk_open_rc L f = ARCHIVE_OK" and "read_next_header2_rc L f = ARCHIVE_OK"
  shows "fst (archive_init L f c w) =
           \<lparr>err = ARCHIVE_OK, a = Addr (next_handle w), disk = Addr (Suc (next_handle w)),
            entry = Addr (Suc (Suc (next_handle w)))\<rparr> \<and>
         {next_handle w, Suc (next_handle w), Suc (Suc (next_handle w))}
           \<subseteq> live (snd (archive_init L f c w)) \<and>
         fst (init_then_close L f c w) = ARCHIVE_OK \<and>
         fst (snd (init_then_close L f c w)) = ARCHIVE_OK \<and>
         sink (snd (snd (init_then_close L f c w))) = sink w @
           [(c, end_of_archive L (if default_bytes_in_last_block L = - 1 then 1
                                  else default_bytes_in_last_block L))]"
  using assms init_then_close_sink [OF assms, of c w]
  by (simp add: archive_init_cookie archive_init_live init_then_close_unfold
      archive_close_status)

text \<open>The same at the library on which every step succeeds, for the path \<open>f\<close>.\<close>

theorem init_then_close_on_success_witness:
  "fst (archive_init lib_ok ''f'' 7 world0) =
     \<lparr>err = ARCHIVE_OK, a = Addr 0, disk = Addr 1, entry = Addr 2\<rparr> \<and>
   {0, 1, 2} \<subseteq> live (snd (archive_init lib_ok ''f'' 7 world0)) \<and>
   fst (init_then_close lib_ok ''f'' 7 world0) = ARCHIVE_OK \<and>
   fst (snd (init_then_close lib_ok ''f'' 7 world0)) = ARCHIVE_OK \<and>
   sink (snd (snd (init_then_close lib_ok ''f'' 7 world0))) = [(7, replicate 1024 0)]"
proof -
  have h1: "set_format_pax_restricted_rc lib_ok = ARCHIVE_OK"
    and h2: "open2_rc lib_ok = ARCHIVE_OK"
    and h3: "read_disk_open_rc lib_ok ''f'' = ARCHIVE_OK"
    and h4: "read_next_header2_rc lib_ok ''f'' = ARCHIVE_OK"
    by (simp_all add: lib_ok_def)
  have w: "next_handle world0 = 0" "sink world0 = []"
    by (simp_all add: world0_def)
  have l: "default_bytes_in_last_block lib_ok = - 1"
    "end_of_archive lib_ok 1 = replicate 1024 0"
    by (simp_all add: lib_ok_def)
  from init_then_close_on_success [OF h1 h2 h3 h4, of 7 world0]
  show ?thesis
    by (simp only: w l numeral_2_eq_2 One_nat_def if_True append_Nil simp_thms)
qed

text \<open>
  C2 as stated does not hold. The path \<open>f\<close> can be opened and its header read, yet what
  the sink receives from \<^verbatim>\<open>archive_init\<close> and \<^verbatim>\<open>archive_close\<close> is the
  1024 zero bytes of the end-of-archive marker: they do not begin with the name \<open>f\<close>,
  so they are not a header for that path.
\<close>

theorem init_then_close_no_header:
  "read_disk_open_rc lib_ok ''f'' = ARCHIVE_OK \<and>
   read_next_header2_rc lib_ok ''f'' = ARCHIVE_OK \<and>
   sink_bytes (snd (snd (init_then_close lib_ok ''f'' 7 world0))) = replicate 1024 0 \<and>
   \<not> header_names ''f'' (sink_bytes (snd (snd (init_then_close lib_ok ''f'' 7 world0))))"
proof -
  have h1: "set_format_pax_restricted_rc lib_ok = ARCHIVE_OK"
    and h2: "open2_rc lib_ok = ARCHIVE_OK"
    and h3: "read_disk_open_rc lib_ok ''f'' = ARCHIVE_OK"
    and h4: "read_next_header2_rc lib_ok ''f'' = ARCHIVE_OK"
    by (simp_all add: lib_ok_def)
  have "sink (snd (snd (init_then_close lib_ok ''f'' 7 world0))) = [(7, replicate 1024 0)]"
    using init_then_close_sink [OF h1 h2 h3 h4, of 7 world0]
    by (simp add: world0_def lib_ok_def)
  then have b: "sink_bytes (snd (snd (init_then_close lib_ok ''f'' 7 world0))) =
      replicate 1024 0"
    by (simp add: sink_bytes_def)
  show ?thesis
    unfolding b using h3 h4 by (simp add: header_names_def)
qed

section \<open>The status of a failed step (C3)\<close>

text \<open>
  C3, as the code has it: the status in the cookie is the native return code of the first
  step that did not answer \<^verbatim>\<open>ARCHIVE_OK\<close>, passed on unchanged (and
  \<^verbatim>\<open>ARCHIVE_OK\<close> when none failed). Which step failed shows in the status only as
  far as the native codes of the steps differ.
\<close>

theorem archive_init_status_first_failure:
  "err (fst (archive_init L f c w)) =
     (if set_format_pax_restricted_rc L \<noteq> ARCHIVE_OK then set_format_pax_restricted_rc L
      else if open2_rc L \<noteq> ARCHIVE_OK then open2_rc L
      else if read_disk_open_rc L f \<noteq> ARCHIVE_OK then read_disk_open_rc L f
      else read_next_header2_rc L f)"
  by (simp add: archive_init_cookie)

text \<open>The same where the open step is the first to fail.\<close>

theorem archive_init_status_first_failure_witness:
  "err (fst (archive_init lib_open_fatal ''f'' 7 world0)) = open2_rc lib_open_fatal \<and>
   open2_rc lib_open_fatal = ARCHIVE_FATAL"
  using archive_init_status_first_failure [of lib_open_fatal "''f''" 7 world0]
  by (simp add: lib_defs)

text \<open>
  C3 as stated does not hold. A format configuration that fails fatally and a sink open
  that fails fatally give the caller the same cookie.
\<close>

theorem archive_init_status_collision:
  "set_format_pax_restricted_rc lib_format_fatal \<noteq> ARCHIVE_OK \<and>
   set_format_pax_restricted_rc lib_open_fatal = ARCHIVE_OK \<and>
   open2_rc lib_open_fatal \<noteq> ARCHIVE_OK \<and>
   fst (archive_init lib_format_fatal ''f'' 7 world0) =
   fst (archive_init lib_open_fatal ''f'' 7 world0)"
  by (simp add: archive_init_cookie lib_defs)

section \<open>Closing twice (C4)\<close>

text \<open>
  C4, as the code has it: \<^verbatim>\<open>archive_close\<close> takes the three handles by value and the
  cookie is not among its results, so the session holds the same handles after the first
  close as before it. A second close on them makes the same five release calls again, and
  every one of them is handed a released allocation.
\<close>

theorem archive_close_twice:
  "made (snd (archive_close L (Addr x) (Addr y) (Addr z) w))
     (snd (archive_close L (Addr x) (Addr y) (Addr z)
        (snd (archive_close L (Addr x) (Addr y) (Addr z) w)))) =
     [Archive_entry_free (Addr z), Archive_read_close (Addr y), Archive_read_free (Addr y),
      Archive_write_close (Addr x), Archive_write_free (Addr x)] \<and>
   stale (snd (archive_close L (Addr x) (Addr y) (Addr z)
        (snd (archive_close L (Addr x) (Addr y) (Addr z) w)))) =
     stale (snd (archive_close L (Addr x) (Addr y) (Addr z) w)) @
     [Archive_entry_free (Addr z), Archive_read_close (Addr y), Archive_read_free (Addr y),
      Archive_write_close (Addr x), Archive_write_free (Addr x)]"
  by (simp add: made_def archive_close_trace archive_close_stale archive_close_live)

text \<open>
  C4 as stated does not hold. After a successful \<^verbatim>\<open>archive_init\<close> the cookie holds
  the handles 0, 1 and 2. The first close on them touches nothing released; the second
  close, on the same cookie, frees each of them a second time.
\<close>

theorem archive_close_twice_double_free:
  "fst (archive_init lib_ok ''f'' 7 world0) =
     \<lparr>err = ARCHIVE_OK, a = Addr 0, disk = Addr 1, entry = Addr 2\<rparr> \<and>
   stale (snd (archive_close lib_ok (Addr 0) (Addr 1) (Addr 2)
     (snd (archive_init lib_ok ''f'' 7 world0)))) = [] \<and>
   stale (snd (archive_close lib_ok (Addr 0) (Addr 1) (Addr 2)
     (snd (archive_close lib_ok (Addr 0) (Addr 1) (Addr 2)
       (snd (archive_init lib_ok ''f'' 7 world0)))))) =
     [Archive_entry_free (Addr 2), Archive_read_close (Addr 1), Archive_read_free (Addr 1),
      Archive_write_close (Addr 0), Archive_write_free (Addr 0)]"
proof -
  have c: "fst (archive_init lib_ok ''f'' 7 world0) =
      \<lparr>err = ARCHIVE_OK, a = Addr 0, disk = Addr 1, entry = Addr 2\<rparr>"
    by (simp add: archive_init_cookie world0_def lib_ok_def numeral_2_eq_2)
  have l: "live (snd (archive_init lib_ok ''f'' 7 world0)) = {0, 1, 2}"
    by (auto simp add: archive_init_live world0_def lib_ok_def numeral_2_eq_2)
  have s0: "stale (snd (archive_init lib_ok ''f'' 7 world0)) = []"
    by (simp add: archive_init_def native_defs update_encoder_def encoder_of_def Let_def
        world0_def lib_defs)
  have s1: "stale (snd (archive_close lib_ok (Addr 0) (Addr 1) (Addr 2)
      (snd (archive_init lib_ok ''f'' 7 world0)))) = []"
    by (simp add: archive_close_def native_defs Let_def l s0
        split: cptr.splits option.splits)
  from c s1 show ?thesis
    by (simp add: archive_close_stale archive_close_live)
qed

section \<open>Closing a partly populated session (C5)\<close>

text \<open>
  C5, as the code has it: \<^verbatim>\<open>archive_close\<close> tests no pointer. Whatever the three
  pointers are, so on every partly populated session too (entry absent; entry and cursor
  absent; all three absent), it makes all five release calls, each with the pointer it was
  given, null included, and answers \<^verbatim>\<open>ARCHIVE_OK\<close>. What a release call on null
  does is the library's matter and is not stated here.
\<close>

theorem archive_close_absent_handles:
  "made w (snd (archive_close L wr rd en w)) =
     [Archive_entry_free en, Archive_read_close rd, Archive_read_free rd,
      Archive_write_close wr, Archive_write_free wr] \<and>
   fst (archive_close L wr rd en w) = ARCHIVE_OK"
  by (simp add: made_def archive_close_trace archive_close_status)

text \<open>
  C5 as stated does not hold. After \<^verbatim>\<open>archive_init\<close> failed at the sink open, only
  the encoder (handle 0) exists. Closing the session made of that encoder and two absent
  handles does not skip the absent ones: the release calls for entry and cursor are made,
  on null.
\<close>

theorem archive_close_null_not_skipped:
  "err (fst (archive_init lib_open_fatal ''f'' 7 world0)) = ARCHIVE_FATAL \<and>
   made (snd (archive_init lib_open_fatal ''f'' 7 world0))
     (snd (archive_close lib_open_fatal (Addr 0) Null Null
        (snd (archive_init lib_open_fatal ''f'' 7 world0)))) =
     [Archive_entry_free Null, Archive_read_close Null, Archive_read_free Null,
      Archive_write_close (Addr 0), Archive_write_free (Addr 0)]"
  by (simp add: made_def archive_close_trace archive_init_cookie lib_defs)

section \<open>A sink that refuses everything (C6)\<close>

text \<open>
  C6, as the code has it: \<^verbatim>\<open>archive_init\<close> does not consult the sink. Whatever the
  sink callback answers, also when it always answers a negative value, the cookie and the
  native state after \<^verbatim>\<open>archive_init\<close> are the ones obtained with any other sink
  callback; the status is that of the open step only when the library's own open fails.
\<close>

theorem archive_init_ignores_sink:
  "archive_init (L\<lparr>buffer_write := s\<rparr>) f c w = archive_init L f c w"
  by (simp add: archive_init_def native_defs Let_def
      split: cptr.splits option.splits prod.splits)

text \<open>
  C6 as stated does not hold. With a sink that answers \<open>-1\<close> to every buffer, the open
  step still succeeds and \<^verbatim>\<open>archive_init\<close> returns \<^verbatim>\<open>ARCHIVE_OK\<close> with all
  three handles.
\<close>

theorem archive_init_sink_fails_ok:
  "buffer_write lib_sink_fails 7 (end_of_archive lib_sink_fails 1) < 0 \<and>
   open2_rc lib_sink_fails = ARCHIVE_OK \<and>
   fst (archive_init lib_sink_fails ''f'' 7 world0) =
     \<lparr>err = ARCHIVE_OK, a = Addr 0, disk = Addr 1, entry = Addr 2\<rparr>"
  by (simp add: archive_init_cookie world0_def lib_defs)

section \<open>The last-block size (C7)\<close>

text \<open>
  C7: during \<^verbatim>\<open>archive_init\<close> the call that sets the encoder's last-block size to 1
  is made if and only if the encoder was asked for its last-block size and answered the
  sentinel \<open>-1\<close>; afterwards the encoder's last-block size is 1 if the sentinel was
  answered and is otherwise what it was; and nothing has reached the sink by then.
\<close>

theorem archive_init_last_block:
  "(Archive_write_set_bytes_in_last_block (Addr (next_handle w)) 1
      \<in> set (made w (snd (archive_init L f c w)))) =
   (Archive_write_get_bytes_in_last_block (Addr (next_handle w)) (- 1)
      \<in> set (made w (snd (archive_init L f c w)))) \<and>
   map_option bytes_in_last_block (encoders (snd (archive_init L f c w)) (next_handle w)) =
     Some (if Archive_write_get_bytes_in_last_block (Addr (next_handle w)) (- 1)
                \<in> set (made w (snd (archive_init L f c w)))
           then 1 else default_bytes_in_last_block L) \<and>
   sink (snd (archive_init L f c w)) = sink w"
  by (simp add: made_def archive_init_trace archive_init_encoder archive_init_sink)

text \<open>The same at a library whose new encoder answers the sentinel.\<close>

theorem archive_init_last_block_witness:
  "Archive_write_get_bytes_in_last_block (Addr 0) (- 1)
      \<in> set (made world0 (snd (archive_init lib_ok ''f'' 7 world0))) \<and>
   Archive_write_set_bytes_in_last_block (Addr 0) 1
      \<in> set (made world0 (snd (archive_init lib_ok ''f'' 7 world0))) \<and>
   map_option bytes_in_last_block (encoders (snd (archive_init lib_ok ''f'' 7 world0)) 0) =
     Some 1"
  using archive_init_last_block [of world0 lib_ok "''f''" 7]
  by (simp add: made_def archive_init_trace world0_def lib_defs)

section \<open>The order of the releases (C8)\<close>

text \<open>
  C8: \<^verbatim>\<open>archive_close\<close> makes exactly five native calls, in this order: free the
  entry, close the cursor, free the cursor, close the encoder, free the encoder.
\<close>

theorem archive_close_release_order:
  "made w (snd (archive_close L wr rd en w)) =
     [Archive_entry_free en, Archive_read_close rd, Archive_read_free rd,
      Archive_write_close wr, Archive_write_free wr]"
  by (simp add: made_def archive_close_trace)

section \<open>The status of a close (C9)\<close>

text \<open>
  C9: for every library, every three pointers and every state of the native side,
  \<^verbatim>\<open>archive_close\<close> answers \<^verbatim>\<open>ARCHIVE_OK\<close>; no status of a native call
  reaches the caller.
\<close>

theorem archive_close_returns_ok:
  "fst (archive_close L wr rd en w) = ARCHIVE_OK"
  by (rule archive_close_status)

text \<open>
  An instance in which a native status is dropped: the sink refuses the end-of-archive
  block, closing the encoder answers \<^verbatim>\<open>ARCHIVE_FATAL\<close>, and \<^verbatim>\<open>archive_close\<close>
  answers \<^verbatim>\<open>ARCHIVE_OK\<close>.
\<close>

lemma archive_close_drops_sink_failure:
  "fst (archive_write_close lib_sink_fails (Addr 0)
          (snd (archive_init lib_sink_fails ''f'' 7 world0))) = ARCHIVE_FATAL \<and>
   fst (archive_close lib_sink_fails (Addr 0) (Addr 1) (Addr 2)
          (snd (archive_init lib_sink_fails ''f'' 7 world0))) = ARCHIVE_OK"
  using archive_init_encoder [of lib_sink_fails "''f''" 7 world0]
  by (simp add: archive_close_status archive_write_close_def encoder_of_def Let_def
      world0_def lib_defs)

section \<open>The sink during \<^verbatim>\<open>archive_init\<close> (C10)\<close>

text \<open>
  C10: for every library, path, sink context and state of the native side, the buffers the
  sink has received after \<^verbatim>\<open>archive_init\<close> are those it had received before: the
  sink callback is not invoked during \<^verbatim>\<open>archive_init\<close>.
\<close>

theorem archive_init_leaves_sink:
  "sink (snd (archive_init L f c w)) = sink w"
  by (rule archive_init_sink)

end
